theory Spec2Isabelle
  imports Complex_Main "HOL-Library.Sublist"
begin

section \<open>Errors raised by the services\<close>

text \<open>
  The services raise \<open>HTTPException\<close> with a status code and a detail message. The
  status code is kept as the constructor, the detail message as a value of \<open>detail\<close>
  that names the message and carries the values interpolated into it. The other
  constructors are the Python and ORM exceptions that the modelled paths can raise.
\<close>

datatype detail =
    CartIsEmpty
  | ProductUnavailable int
  | InsufficientStock string
  | InvalidCoupon "string option"
  | OrderNotFound
  | OrderAccessDenied
  | OrderNotCancellable
  | PaymentNotFound

datatype error =
    BadRequest detail
  | Forbidden detail
  | NotFound detail
  | Unauthorized
  | AttributeError string
  | TypeError
  | MultipleResultsFound

section \<open>Persistent entities (app/models)\<close>

datatype OrderStatus = PENDING | PAID | SHIPPED | DELIVERED | CANCELLED | REFUNDED

datatype PaymentStatus = PAY_PENDING | PAY_SUCCESS | PAY_FAILED | PAY_REFUNDED

record product =
  p_name :: string
  p_stock :: int
  p_is_active :: bool

record cart_item =
  ci_id :: int
  ci_cart_id :: int
  ci_product_id :: int
  ci_quantity :: int
  ci_price :: rat

record order =
  o_user_id :: int
  o_status :: OrderStatus
  o_total_amount :: rat
  o_billing_address_id :: "int option"
  o_shipping_address_id :: "int option"

record order_item =
  oi_id :: int
  oi_order_id :: int
  oi_product_id :: int
  oi_quantity :: int
  oi_unit_price :: rat

record payment =
  pay_id :: int
  pay_order_id :: int
  pay_status :: PaymentStatus
  pay_transaction_reference :: "string option"
  pay_paid_at :: "int option"

text \<open>
  The database. The tables of products and orders, which the modelled code reads by
  primary key only, are maps from the id to the row; \<open>carts\<close> maps a user id to the
  id of that user's cart (the column \<open>carts.user_id\<close> is declared unique). The
  tables of cart lines, order lines and payments are lists of rows, since the code
  also selects from them by other columns. The \<open>next_*\<close> fields are the
  auto-increment counters. Money columns (DECIMAL) and the \<open>float\<close> values computed
  from them are exact rationals.
\<close>

record db =
  products :: "int \<rightharpoonup> product"
  carts :: "int \<rightharpoonup> int"
  cart_items :: "cart_item list"
  orders :: "int \<rightharpoonup> order"
  order_items :: "order_item list"
  payments :: "payment list"
  next_cart_item_id :: int
  next_order_id :: int
  next_order_item_id :: int

section \<open>ProductRepository (app/repositories/product.py)\<close>

text \<open>
  \<open>BaseRepository.update\<close> drops the entries of its dictionary whose value is
  \<open>None\<close>, runs \<open>UPDATE ... WHERE id = :id\<close> and returns \<open>get_by_id\<close>. The
  callers modelled here pass one entry with a value that is never \<open>None\<close>, so the
  update always runs; it changes nothing when no row has the id.
\<close>

definition update_stock :: "db \<Rightarrow> int \<Rightarrow> int \<Rightarrow> product option \<times> db" where
  "update_stock s product_id quantity =
     (let s' = (case products s product_id of
                  None \<Rightarrow> s
                | Some p \<Rightarrow> s\<lparr>products := (products s)(product_id \<mapsto> p\<lparr>p_stock := quantity\<rparr>)\<rparr>)
      in (products s' product_id, s'))"

definition decrease_stock :: "db \<Rightarrow> int \<Rightarrow> int \<Rightarrow> product option \<times> db" where
  "decrease_stock s product_id quantity =
     (case products s product_id of
        None \<Rightarrow> (None, s)
      | Some product \<Rightarrow>
          (let new_stock = max 0 (p_stock product - quantity)
           in update_stock s product_id new_stock))"



section \<open>CartItemRepository and the Cart model (app/repositories/cart.py, app/models/cart.py)\<close>

text \<open>
  \<open>scalar_one_or_none\<close> returns the row, \<open>None\<close> when there is none, and raises
  \<open>MultipleResultsFound\<close> when the query selects more than one row.
\<close>

definition scalar_one_or_none :: "'a list \<Rightarrow> error + 'a option" where
  "scalar_one_or_none rows =
     (case rows of [] \<Rightarrow> Inr None | [r] \<Rightarrow> Inr (Some r) | _ \<Rightarrow> Inl MultipleResultsFound)"






text \<open>The relationship \<open>Cart.items\<close>: the lines whose \<open>cart_id\<close> is the cart's id.\<close>

definition cart_lines :: "db \<Rightarrow> int \<Rightarrow> cart_item list" where
  "cart_lines s cart_id = filter (\<lambda>i. ci_cart_id i = cart_id) (cart_items s)"

definition item_subtotal :: "cart_item \<Rightarrow> rat" where
  "item_subtotal i = ci_price i * of_int (ci_quantity i)"

definition subtotal :: "cart_item list \<Rightarrow> rat" where
  "subtotal items = (if items = [] then 0 else sum_list (map item_subtotal items))"

definition is_empty :: "cart_item list \<Rightarrow> bool" where
  "is_empty items = (if items \<noteq> [] then length items = 0 else True)"

section \<open>Coupon (app/models/coupon.py, app/services/coupon.py)\<close>

datatype DiscountType = PERCENTAGE | FIXED

record coupon =
  cp_discount_type :: DiscountType
  cp_discount_value :: rat
  cp_min_order_amount :: "rat option"
  cp_expires_at :: "int option"
  cp_is_active :: bool

text \<open>\<open>now\<close> is the value of \<open>datetime.utcnow()\<close>, in seconds.\<close>

definition is_expired :: "int \<Rightarrow> coupon \<Rightarrow> bool" where
  "is_expired now c = (case cp_expires_at c of None \<Rightarrow> False | Some e \<Rightarrow> now > e)"

definition is_valid :: "int \<Rightarrow> coupon \<Rightarrow> bool" where
  "is_valid now c = (cp_is_active c \<and> \<not> is_expired now c)"

definition is_percentage :: "coupon \<Rightarrow> bool" where
  "is_percentage c = (cp_discount_type c = PERCENTAGE)"

text \<open>
  \<open>if self.min_order_amount and ...\<close>: a \<open>Decimal\<close> is true when it is neither
  \<open>None\<close> nor zero.
\<close>

definition calculate_discount :: "int \<Rightarrow> coupon \<Rightarrow> rat \<Rightarrow> rat" where
  "calculate_discount now c order_amount =
     (if \<not> is_valid now c then 0
      else if (case cp_min_order_amount c of
                 None \<Rightarrow> False
               | Some m \<Rightarrow> m \<noteq> 0 \<and> order_amount < m) then 0
      else if is_percentage c then
        (let discount = order_amount * (cp_discount_value c / 100)
         in min discount order_amount)
      else min (cp_discount_value c) order_amount)"

text \<open>
  \<open>CouponRepository.validate_code\<close> is not part of the sources. The services take its
  result, the triple \<open>(is_valid, coupon, error)\<close>, and the model takes the function
  as the parameter \<open>validate_code\<close>.
\<close>

type_synonym code_validator = "db \<Rightarrow> string \<Rightarrow> bool \<times> coupon option \<times> string option"

text \<open>
  The message of \<open>validate_coupon\<close>: the one \<open>validate_code\<close> gave, or the
  message built from the coupon's minimum and the order amount.
\<close>

datatype coupon_message = RepositoryMessage string | MinimumRequired rat rat

definition validate_coupon ::
  "code_validator \<Rightarrow> int \<Rightarrow> db \<Rightarrow> string \<Rightarrow> rat
     \<Rightarrow> error + (bool \<times> coupon option \<times> coupon_message option \<times> rat \<times> rat)" where
  "validate_coupon validate_code now s code order_amount =
     (case validate_code s code of (valid, coupon, err) \<Rightarrow>
        if \<not> valid then Inr (False, coupon, map_option RepositoryMessage err, 0, order_amount)
        else (case coupon of
                None \<Rightarrow> Inl (AttributeError ''min_order_amount'')
              | Some c \<Rightarrow>
                  if (case cp_min_order_amount c of
                        None \<Rightarrow> False
                      | Some m \<Rightarrow> m \<noteq> 0 \<and> order_amount < m)
                  then Inr (False, coupon,
                            Some (MinimumRequired (the (cp_min_order_amount c)) order_amount),
                            0, order_amount)
                  else (let discount_amount = calculate_discount now c order_amount;
                            final_amount = order_amount - discount_amount
                        in Inr (True, coupon, None, discount_amount, final_amount))))"


section \<open>OrderRepository and OrderService (app/repositories/order.py, app/services/order.py)\<close>

record OrderFromCart =
  coupon_code :: "string option"
  billing_address_id :: "int option"
  shipping_address_id :: "int option"

text \<open>\<open>BaseRepository.update\<close> with the dictionary \<open>{"status": status}\<close>.\<close>

definition update_status :: "db \<Rightarrow> int \<Rightarrow> OrderStatus \<Rightarrow> order option \<times> db" where
  "update_status s order_id status =
     (let s' = (case orders s order_id of
                  None \<Rightarrow> s
                | Some ord \<Rightarrow> s\<lparr>orders := (orders s)(order_id \<mapsto> ord\<lparr>o_status := status\<rparr>)\<rparr>)
      in (orders s' order_id, s'))"

text \<open>The validation loop of \<open>create_order_from_cart\<close>: the first failure, if any.\<close>

fun check_lines :: "db \<Rightarrow> cart_item list \<Rightarrow> error option" where
  "check_lines s [] = None"
| "check_lines s (cart_item # rest) =
     (case products s (ci_product_id cart_item) of
        None \<Rightarrow> Some (BadRequest (ProductUnavailable (ci_product_id cart_item)))
      | Some product \<Rightarrow>
          if \<not> p_is_active product
          then Some (BadRequest (ProductUnavailable (ci_product_id cart_item)))
          else if p_stock product < ci_quantity cart_item
          then Some (BadRequest (InsufficientStock (p_name product)))
          else check_lines s rest)"

text \<open>\<open>OrderRepository.create\<close>: a new order row under the next auto-increment id.\<close>

definition create_order :: "db \<Rightarrow> order \<Rightarrow> int \<times> db" where
  "create_order s ord =
     (next_order_id s,
      s\<lparr>orders := (orders s)(next_order_id s \<mapsto> ord), next_order_id := next_order_id s + 1\<rparr>)"

text \<open>\<open>bulk_create_items\<close>: one order line for each cart line, in order.\<close>

fun bulk_create_items :: "db \<Rightarrow> int \<Rightarrow> cart_item list \<Rightarrow> db" where
  "bulk_create_items s order_id [] = s"
| "bulk_create_items s order_id (cart_item # rest) =
     bulk_create_items
       (s\<lparr>order_items := order_items s @
             [\<lparr>oi_id = next_order_item_id s, oi_order_id = order_id,
               oi_product_id = ci_product_id cart_item,
               oi_quantity = ci_quantity cart_item,
               oi_unit_price = ci_price cart_item\<rparr>],
          next_order_item_id := next_order_item_id s + 1\<rparr>)
       order_id rest"

fun decrease_all :: "db \<Rightarrow> cart_item list \<Rightarrow> db" where
  "decrease_all s [] = s"
| "decrease_all s (cart_item # rest) =
     decrease_all (snd (decrease_stock s (ci_product_id cart_item) (ci_quantity cart_item))) rest"

text \<open>\<open>CartRepository.clear\<close>: \<open>DELETE FROM cart_items WHERE cart_id = :id\<close>.\<close>

definition clear :: "db \<Rightarrow> int \<Rightarrow> db" where
  "clear s cart_id = s\<lparr>cart_items := filter (\<lambda>i. ci_cart_id i \<noteq> cart_id) (cart_items s)\<rparr>"

definition get_by_id_with_details :: "db \<Rightarrow> int \<Rightarrow> (int \<times> order) option" where
  "get_by_id_with_details s order_id = map_option (Pair order_id) (orders s order_id)"

text \<open>
  \<open>create_order_from_cart\<close>. An exception leaves the function with the database as it
  is at that point. The conversions between \<open>float\<close> and \<open>Decimal\<close> are the identity
  on the rationals of the model.
\<close>

definition create_order_from_cart ::
  "code_validator \<Rightarrow> int \<Rightarrow> db \<Rightarrow> int \<Rightarrow> OrderFromCart \<Rightarrow> (error + (int \<times> order) option) \<times> db" where
  "create_order_from_cart validate_code now s user_id order_data =
     (case carts s user_id of
        None \<Rightarrow> (Inl (BadRequest CartIsEmpty), s)
      | Some cart_id \<Rightarrow>
          (let items = cart_lines s cart_id in
           if is_empty items then (Inl (BadRequest CartIsEmpty), s)
           else (case check_lines s items of
             Some e \<Rightarrow> (Inl e, s)
           | None \<Rightarrow>
               (let total_amount = subtotal items;
                    discounted =
                      (case coupon_code order_data of
                         None \<Rightarrow> Inr total_amount
                       | Some code \<Rightarrow>
                           if code = [] then Inr total_amount
                           else (case validate_code s code of (valid, coupon, err) \<Rightarrow>
                                   if \<not> valid then Inl (BadRequest (InvalidCoupon err))
                                   else (case coupon of
                                           None \<Rightarrow> Inl (AttributeError ''calculate_discount'')
                                         | Some c \<Rightarrow>
                                             Inr (total_amount
                                                  - calculate_discount now c total_amount))))
                in case discounted of
                     Inl e \<Rightarrow> (Inl e, s)
                   | Inr final_amount \<Rightarrow>
                       (case create_order s
                               \<lparr>o_user_id = user_id, o_status = PENDING, o_total_amount = final_amount,
                                o_billing_address_id = billing_address_id order_data,
                                o_shipping_address_id = shipping_address_id order_data\<rparr> of
                          (order_id, s1) \<Rightarrow>
                            (let s2 = bulk_create_items s1 order_id items;
                                 s3 = decrease_all s2 items;
                                 s4 = clear s3 cart_id
                             in (Inr (get_by_id_with_details s4 order_id), s4)))))))"






section \<open>PaymentService (app/services/payment.py)\<close>

text \<open>\<open>BaseRepository.get_by_id\<close> on the payments table.\<close>

definition get_payment_by_id :: "db \<Rightarrow> int \<Rightarrow> error + payment option" where
  "get_payment_by_id s payment_id =
     scalar_one_or_none (filter (\<lambda>p. pay_id p = payment_id) (payments s))"

text \<open>
  Modelled from the spec: \<open>PaymentRepository.mark_as_success\<close>, whose file is not part
  of the sources. The specification gives its contract as: sets status = success,
  stores the transaction reference, sets paid-at = now.
\<close>

definition mark_as_success :: "int \<Rightarrow> db \<Rightarrow> int \<Rightarrow> string \<Rightarrow> (error + payment option) \<times> db" where
  "mark_as_success now s payment_id transaction_reference =
     (let s' = s\<lparr>payments :=
                  map (\<lambda>p. if pay_id p = payment_id
                            then p\<lparr>pay_status := PAY_SUCCESS,
                                   pay_transaction_reference := Some transaction_reference,
                                   pay_paid_at := Some now\<rparr>
                            else p) (payments s)\<rparr>
      in (get_payment_by_id s' payment_id, s'))"

text \<open>
  Modelled from the spec: \<open>PaymentRepository.mark_as_failed\<close>, whose file is not part
  of the sources. The specification says that failing marks the payment failed and
  does not alter the order.
\<close>

definition mark_as_failed :: "db \<Rightarrow> int \<Rightarrow> (error + payment option) \<times> db" where
  "mark_as_failed s payment_id =
     (let s' = s\<lparr>payments :=
                  map (\<lambda>p. if pay_id p = payment_id then p\<lparr>pay_status := PAY_FAILED\<rparr> else p)
                      (payments s)\<rparr>
      in (get_payment_by_id s' payment_id, s'))"

text \<open>
  Modelled from the spec: \<open>PaymentRepository.get_by_transaction_reference\<close>, whose file
  is not part of the sources: the payment whose stored transaction reference equals
  the given one (the column is declared unique).
\<close>

definition get_by_transaction_reference :: "db \<Rightarrow> string \<Rightarrow> payment option" where
  "get_by_transaction_reference s reference =
     find (\<lambda>p. pay_transaction_reference p = Some reference) (payments s)"

definition process_payment :: "int \<Rightarrow> db \<Rightarrow> int \<Rightarrow> string \<Rightarrow> (error + payment option) \<times> db" where
  "process_payment now s payment_id transaction_reference =
     (case get_payment_by_id s payment_id of
        Inl e \<Rightarrow> (Inl e, s)
      | Inr None \<Rightarrow> (Inl (NotFound PaymentNotFound), s)
      | Inr (Some payment) \<Rightarrow>
          (case mark_as_success now s payment_id transaction_reference of
             (Inl e, s1) \<Rightarrow> (Inl e, s1)
           | (Inr updated_payment, s1) \<Rightarrow>
               (case update_status s1 (pay_order_id payment) PAID of
                  (_, s2) \<Rightarrow> (Inr updated_payment, s2))))"

definition fail_payment :: "db \<Rightarrow> int \<Rightarrow> (error + payment option) \<times> db" where
  "fail_payment s payment_id =
     (case get_payment_by_id s payment_id of
        Inl e \<Rightarrow> (Inl e, s)
      | Inr None \<Rightarrow> (Inl (NotFound PaymentNotFound), s)
      | Inr (Some payment) \<Rightarrow> mark_as_failed s payment_id)"

text \<open>
  A webhook event: the value under \<open>type\<close> and the \<open>id\<close> of the object under
  \<open>data.object\<close>. Events whose object has no id are not modelled.
\<close>

record stripe_event =
  ev_type :: "string option"
  ev_object_id :: string

definition process_stripe_webhook :: "int \<Rightarrow> db \<Rightarrow> stripe_event \<Rightarrow> (error + payment option) \<times> db" where
  "process_stripe_webhook now s event_data =
     (if ev_type event_data = Some ''payment_intent.succeeded'' then
        (let payment_intent_id = ev_object_id event_data in
         case get_by_transaction_reference s payment_intent_id of
           Some payment \<Rightarrow> process_payment now s (pay_id payment) payment_intent_id
         | None \<Rightarrow> (Inr None, s))
      else if ev_type event_data = Some ''payment_intent.payment_failed'' then
        (let payment_intent_id = ev_object_id event_data in
         case get_by_transaction_reference s payment_intent_id of
           Some payment \<Rightarrow> fail_payment s (pay_id payment)
         | None \<Rightarrow> (Inr None, s))
      else (Inr None, s))"

section \<open>Category (app/models/category.py)\<close>

record category =
  cat_parent_id :: "int option"
  cat_name :: string

text \<open>
  The categories table maps an id to its row. The relationship \<open>current.parent\<close>
  loads the row whose id is \<open>current.parent_id\<close>; it is \<open>None\<close> when no such row
  exists, and reading an attribute of \<open>None\<close> raises \<open>AttributeError\<close>. The loop
  variable \<open>current\<close> is therefore a \<open>category option\<close>.
\<close>

type_synonym categories = "int \<rightharpoonup> category"

definition is_root :: "category \<Rightarrow> bool" where
  "is_root c = (cat_parent_id c = None)"

function level_loop :: "categories \<Rightarrow> category option \<Rightarrow> int \<Rightarrow> error + int" where
  "level_loop tbl current level =
     (case current of
        None \<Rightarrow> Inl (AttributeError ''parent_id'')
      | Some c \<Rightarrow>
          (case cat_parent_id c of
             None \<Rightarrow> Inr level
           | Some pid \<Rightarrow>
               (let level' = level + 1; current' = tbl pid
                in if level' > 10 then Inr level'
                   else level_loop tbl current' level')))"
  by pat_completeness auto
termination
  by (relation "measure (\<lambda>(tbl, current, level). nat (11 - level))") auto

declare level_loop.simps [simp del]

definition level :: "categories \<Rightarrow> category \<Rightarrow> error + int" where
  "level tbl self = (if is_root self then Inr 0 else level_loop tbl (Some self) 0)"

function full_path_loop :: "categories \<Rightarrow> category option \<Rightarrow> string list \<Rightarrow> error + string list" where
  "full_path_loop tbl current path =
     (case current of
        None \<Rightarrow> Inl (AttributeError ''parent_id'')
      | Some c \<Rightarrow>
          (case cat_parent_id c of
             None \<Rightarrow> Inr path
           | Some pid \<Rightarrow>
               (case tbl pid of
                  None \<Rightarrow> Inl (AttributeError ''name'')
                | Some parent \<Rightarrow>
                    (let path' = cat_name parent # path
                     in if length path' > 10 then Inr path'
                        else full_path_loop tbl (Some parent) path'))))"
  by pat_completeness auto
termination
  by (relation "measure (\<lambda>(tbl, current, path). 11 - length path)") auto

declare full_path_loop.simps [simp del]

text \<open>\<open>sep.join(parts)\<close>.\<close>

fun join :: "string \<Rightarrow> string list \<Rightarrow> string" where
  "join sep [] = []"
| "join sep [x] = x"
| "join sep (x # y # ys) = x @ sep @ join sep (y # ys)"

definition full_path :: "categories \<Rightarrow> category \<Rightarrow> error + string" where
  "full_path tbl self =
     (if is_root self then Inr (cat_name self)
      else (case full_path_loop tbl (Some self) [cat_name self] of
              Inl e \<Rightarrow> Inl e
            | Inr path \<Rightarrow> Inr (join '' > '' path)))"

section \<open>Chunk (backend/app/ingest/chunk.py)\<close>

text \<open>
  The dataclass \<open>Chunk\<close> and its fields. A Python \<open>str\<close> is modelled as the list of
  the bytes of its UTF-8 encoding.
\<close>

record Chunk =
  c_id :: string
  c_name :: "string option"
  c_type :: string
  c_language :: string
  c_path :: string
  c_code :: string
  c_params :: "string list"
  c_imports :: "string list"
  c_role :: "string option"
  c_summary :: "string option"
  c_metadata :: "(string \<times> string) list"

datatype pyval = PNone | PStr string | PList "string list" | PDict "(string \<times> string) list"

definition of_optional :: "string option \<Rightarrow> pyval" where
  "of_optional v = (case v of None \<Rightarrow> PNone | Some x \<Rightarrow> PStr x)"

text \<open>
  Attribute access \<open>self.a\<close>. The attributes of a \<open>Chunk\<close> are the fields that the
  dataclass declares (the class defines no property and no \<open>__getattr__\<close>); reading
  any other name raises \<open>AttributeError\<close>.
\<close>

definition getattr :: "Chunk \<Rightarrow> string \<Rightarrow> error + pyval" where
  "getattr self a =
     (if a = ''id'' then Inr (PStr (c_id self))
      else if a = ''name'' then Inr (of_optional (c_name self))
      else if a = ''type'' then Inr (PStr (c_type self))
      else if a = ''language'' then Inr (PStr (c_language self))
      else if a = ''path'' then Inr (PStr (c_path self))
      else if a = ''code'' then Inr (PStr (c_code self))
      else if a = ''params'' then Inr (PList (c_params self))
      else if a = ''imports'' then Inr (PList (c_imports self))
      else if a = ''role'' then Inr (of_optional (c_role self))
      else if a = ''summary'' then Inr (of_optional (c_summary self))
      else if a = ''metadata'' then Inr (PDict (c_metadata self))
      else Inl (AttributeError a))"

text \<open>Truth value of a Python value: \<open>None\<close> and the empty values are false.\<close>

fun truthy :: "pyval \<Rightarrow> bool" where
  "truthy PNone = False"
| "truthy (PStr x) = (x \<noteq> [])"
| "truthy (PList xs) = (xs \<noteq> [])"
| "truthy (PDict d) = (d \<noteq> [])"

text \<open>
  The text that an f-string field \<open>{v}\<close> renders. For a list or a dictionary Python
  renders its \<open>repr\<close>; the two equations for them give the \<open>repr\<close> of values whose
  strings need no escaping, and \<open>to_embedding\<close> formats no such value.
\<close>

fun format_value :: "pyval \<Rightarrow> string" where
  "format_value PNone = ''None''"
| "format_value (PStr x) = x"
| "format_value (PList xs) =
     ''['' @ join '', '' (map (\<lambda>x. [CHR 0x27] @ x @ [CHR 0x27]) xs) @ '']''"
| "format_value (PDict d) =
     ''{'' @ join '', '' (map (\<lambda>(k, v). [CHR 0x27] @ k @ [CHR 0x27] @ '': '' @ [CHR 0x27] @ v @ [CHR 0x27]) d) @ ''}''"

text \<open>Sequencing of steps that may raise: the first exception ends the run.\<close>

definition and_then :: "error + 'a \<Rightarrow> ('a \<Rightarrow> error + 'b) \<Rightarrow> error + 'b" where
  "and_then m f = (case m of Inl e \<Rightarrow> Inl e | Inr v \<Rightarrow> f v)"

text \<open>\<open>', '.join(v)\<close>: a \<open>TypeError\<close> unless \<open>v\<close> is a list of strings.\<close>

fun join_value :: "pyval \<Rightarrow> error + string" where
  "join_value (PList xs) = Inr (join '', '' xs)"
| "join_value v = Inl TypeError"

text \<open>
  \<open>to_embedding\<close>. The four f-strings of the list display are evaluated in order;
  the optional sections follow. The labels are the source's, accents included:
  \<open>0xC3 0xA8\<close> is the letter e with a grave accent, \<open>0xC3 0xA9\<close> with an acute one.
\<close>

definition to_embedding :: "Chunk \<Rightarrow> error + string" where
  "to_embedding self =
     and_then (getattr self ''type'') (\<lambda>v_type.
     and_then (getattr self ''name'') (\<lambda>v_name.
     and_then (getattr self ''language'') (\<lambda>v_language.
     and_then (getattr self ''file_path'') (\<lambda>v_file_path.
     and_then (Inr [''Type: '' @ format_value v_type,
                    ''Nom: '' @ format_value v_name,
                    ''Langage: '' @ format_value v_language,
                    ''Fichier: '' @ format_value v_file_path]) (\<lambda>parts.
     and_then (getattr self ''role'') (\<lambda>v_role.
     and_then (if truthy v_role
               then Inr (parts @ [''Role: '' @ format_value v_role])
               else Inr parts) (\<lambda>parts.
     and_then (getattr self ''params'') (\<lambda>v_params.
     and_then (if truthy v_params
               then and_then (join_value v_params) (\<lambda>joined.
                      Inr (parts @ [''Param'' @ [CHR 0xC3, CHR 0xA8] @ ''tres: '' @ joined]))
               else Inr parts) (\<lambda>parts.
     and_then (getattr self ''imports'') (\<lambda>v_imports.
     and_then (if truthy v_imports
               then and_then (join_value v_imports) (\<lambda>joined.
                      Inr (parts @ [''Imports: '' @ joined]))
               else Inr parts) (\<lambda>parts.
     and_then (getattr self ''summary'') (\<lambda>v_summary.
     and_then (if truthy v_summary
               then Inr (parts @ [''R'' @ [CHR 0xC3, CHR 0xA9] @ ''sum'' @ [CHR 0xC3, CHR 0xA9]
                                  @ '': '' @ format_value v_summary])
               else Inr parts) (\<lambda>parts.
     and_then (getattr self ''code'') (\<lambda>v_code.
       (case v_code of
          PStr code \<Rightarrow> Inr (join [CHR 0x0A] (parts @ [''Code:''] @ [code]))
        | PNone \<Rightarrow> Inl TypeError
        | PList xs \<Rightarrow> Inl TypeError
        | PDict d \<Rightarrow> Inl TypeError)))))))))))))))"

section \<open>Repository walker (backend/app/ingest/ingest_repo.py)\<close>

text \<open>
  A directory: its sub-directories, by name, and the names of its files.
  \<open>os.walk\<close> lists the directory itself first and then walks each sub-directory.
\<close>

datatype dir = Dir "(string \<times> dir) list" "string list"

definition path_join :: "string \<Rightarrow> string \<Rightarrow> string" where
  "path_join a b =
     (if b \<noteq> [] \<and> hd b = CHR ''/'' then b
      else if a = [] \<or> last a = CHR ''/'' then a @ b
      else a @ ''/'' @ b)"

fun os_walk :: "string \<Rightarrow> dir \<Rightarrow> (string \<times> string list \<times> string list) list" where
  "os_walk root' (Dir subdirs filenames) =
     (root', map fst subdirs, filenames)
     # concat (map (\<lambda>d. os_walk (path_join root' (fst d)) (snd d)) subdirs)"

definition SUPORTED_EXT :: "string list" where
  "SUPORTED_EXT = [''.js'', ''.md'', ''.yml'', ''yaml'']"

text \<open>\<open>s.endswith(ext)\<close>.\<close>

definition endswith :: "string \<Rightarrow> string \<Rightarrow> bool" where
  "endswith s ext = (length ext \<le> length s \<and> drop (length s - length ext) s = ext)"

definition get_file :: "string \<Rightarrow> dir \<Rightarrow> string list" where
  "get_file path tree =
     concat (map (\<lambda>(root', dirs, filenames).
                    map (path_join root')
                        (filter (\<lambda>file. list_ex (\<lambda>ext. endswith file ext) SUPORTED_EXT) filenames))
                 (os_walk path tree))"

section \<open>Tokens (app/core/security.py)\<close>

text \<open>
  A claim set is a dictionary from claim names to values; times are in seconds.
  \<open>jwt.encode\<close> and \<open>jwt.decode\<close> belong to the JOSE library: a token is modelled as
  the payload together with the key that signed it, and decoding checks the key and
  the expiry claim before it returns the payload.
\<close>

datatype claim_value = Str string | Time int

type_synonym claims = "string \<rightharpoonup> claim_value"

record token =
  tok_payload :: claims
  tok_key :: string

record settings =
  SECRET_KEY :: string
  ACCESS_TOKEN_EXPIRE_MINUTES :: int

definition jwt_encode :: "claims \<Rightarrow> string \<Rightarrow> token" where
  "jwt_encode payload key = \<lparr>tok_payload = payload, tok_key = key\<rparr>"

definition decode_token :: "settings \<Rightarrow> int \<Rightarrow> token \<Rightarrow> error + claims" where
  "decode_token cfg now tok =
     (if tok_key tok \<noteq> SECRET_KEY cfg then Inl Unauthorized
      else (case tok_payload tok ''exp'' of
              Some (Time e) \<Rightarrow> if e < now then Inl Unauthorized else Inr (tok_payload tok)
            | Some (Str x) \<Rightarrow> Inl Unauthorized
            | None \<Rightarrow> Inr (tok_payload tok)))"

text \<open>
  \<open>create_access_token\<close>: \<open>expires_delta\<close> is a duration in seconds, and
  \<open>if expires_delta\<close> is false for \<open>None\<close> and for the zero duration.
  \<open>to_encode.update\<close> overrides the entries of \<open>data\<close> under the same keys.
\<close>

definition create_access_token :: "settings \<Rightarrow> int \<Rightarrow> claims \<Rightarrow> int option \<Rightarrow> token" where
  "create_access_token cfg now data expires_delta =
     (let to_encode = data;
          expire = (case expires_delta of
                      None \<Rightarrow> now + 60 * ACCESS_TOKEN_EXPIRE_MINUTES cfg
                    | Some d \<Rightarrow> if d \<noteq> 0 then now + d
                                else now + 60 * ACCESS_TOKEN_EXPIRE_MINUTES cfg);
          to_encode = to_encode ++ [''exp'' \<mapsto> Time expire, ''iat'' \<mapsto> Time now,
                                    ''type'' \<mapsto> Str ''access'']
      in jwt_encode to_encode (SECRET_KEY cfg))"

definition create_email_verification_token :: "settings \<Rightarrow> int \<Rightarrow> string \<Rightarrow> token" where
  "create_email_verification_token cfg now email =
     (let data = [''sub'' \<mapsto> Str email, ''type'' \<mapsto> Str ''email_verification''];
          expires = 24 * 3600
      in create_access_token cfg now data (Some expires))"

definition create_password_reset_token :: "settings \<Rightarrow> int \<Rightarrow> string \<Rightarrow> token" where
  "create_password_reset_token cfg now email =
     (let data = [''sub'' \<mapsto> Str email, ''type'' \<mapsto> Str ''password_reset''];
          expires = 1 * 3600
      in create_access_token cfg now data (Some expires))"

section \<open>Concrete states\<close>

text \<open>
  A shop in which user 1 holds cart 5 with one line: two lamps, of which one is in
  stock.
\<close>

definition db_short_stock :: db where
  "db_short_stock =
     \<lparr>products = [10 \<mapsto> \<lparr>p_name = ''lamp'', p_stock = 1, p_is_active = True\<rparr>],
      carts = [1 \<mapsto> 5],
      cart_items = [\<lparr>ci_id = 1, ci_cart_id = 5, ci_product_id = 10, ci_quantity = 2,
                     ci_price = 30\<rparr>],
      orders = Map.empty, order_items = [], payments = [],
      next_cart_item_id = 2, next_order_id = 1, next_order_item_id = 1\<rparr>"


text \<open>A category that is its own parent.\<close>

definition cat_cycle :: category where
  "cat_cycle = \<lparr>cat_parent_id = Some 1, cat_name = ''a''\<rparr>"

definition tbl_cycle :: categories where
  "tbl_cycle = [1 \<mapsto> cat_cycle]"

text \<open>A shop whose only payment, for order 1, has been refunded.\<close>

definition pay_refunded :: payment where
  "pay_refunded = \<lparr>pay_id = 3, pay_order_id = 1, pay_status = PAY_REFUNDED,
                    pay_transaction_reference = Some ''pi_1'', pay_paid_at = Some 100\<rparr>"

definition db_refunded :: db where
  "db_refunded =
     \<lparr>products = Map.empty, carts = Map.empty, cart_items = [],
      orders = [1 \<mapsto> \<lparr>o_user_id = 7, o_status = REFUNDED, o_total_amount = 32,
                        o_billing_address_id = None, o_shipping_address_id = None\<rparr>],
      order_items = [], payments = [pay_refunded],
      next_cart_item_id = 1, next_order_id = 2, next_order_item_id = 1\<rparr>"


section \<open>Verified properties\<close>

subsection \<open>Stock updates\<close>

lemma update_stock_existing:
  "products s pid = Some p \<Longrightarrow>
   update_stock s pid q =
     (Some (p\<lparr>p_stock := q\<rparr>), s\<lparr>products := (products s)(pid \<mapsto> p\<lparr>p_stock := q\<rparr>)\<rparr>)"
  by (simp add: update_stock_def)

text \<open>
  Claim C6. For a product that exists, \<open>decrease_stock\<close> stores
  \<open>max 0 (old stock - quantity)\<close> as the new stock, returns the updated row and
  touches no other row and no other table; the stored stock is never negative,
  whatever the quantity.
\<close>

theorem decrease_stock_floor:
  assumes "products s pid = Some p"
  shows "\<exists>p' s'. decrease_stock s pid q = (Some p', s')
           \<and> products s' pid = Some p'
           \<and> p' = p\<lparr>p_stock := max 0 (p_stock p - q)\<rparr>
           \<and> 0 \<le> p_stock p'
           \<and> s' = s\<lparr>products := (products s)(pid \<mapsto> p')\<rparr>"
  using assms by (simp add: decrease_stock_def update_stock_existing)

theorem decrease_stock_floor_witness:
  "\<exists>p' s'. decrease_stock
       \<lparr>products = [7 \<mapsto> \<lparr>p_name = ''mug'', p_stock = 3, p_is_active = True\<rparr>],
        carts = Map.empty, cart_items = [], orders = Map.empty, order_items = [],
        payments = [], next_cart_item_id = 1, next_order_id = 1,
        next_order_item_id = 1\<rparr> 7 5 = (Some p', s')
     \<and> p_stock p' = 0"
  using decrease_stock_floor
    [of "\<lparr>products = [7 \<mapsto> \<lparr>p_name = ''mug'', p_stock = 3, p_is_active = True\<rparr>],
        carts = Map.empty, cart_items = [], orders = Map.empty, order_items = [],
        payments = [], next_cart_item_id = 1, next_order_id = 1,
        next_order_item_id = 1\<rparr>" 7
        "\<lparr>p_name = ''mug'', p_stock = 3, p_is_active = True\<rparr>" 5]
  by auto

subsection \<open>Verification and reset tokens\<close>

text \<open>
  Claim C1. The claim asks for tokens of type \<open>email_verification\<close> and
  \<open>password_reset\<close>. Both creators put their type into \<open>data\<close> and hand it to
  \<open>create_access_token\<close>, whose \<open>update\<close> then stores \<open>"access"\<close> under the same
  key. For every e-mail address the decoded payload of either token has the subject
  the claim states and the type \<open>access\<close>.
\<close>

theorem verification_tokens_typed_access:
  "tok_payload (create_email_verification_token cfg now email) ''type'' = Some (Str ''access'')
   \<and> tok_payload (create_email_verification_token cfg now email) ''sub'' = Some (Str email)
   \<and> tok_payload (create_password_reset_token cfg now email) ''type'' = Some (Str ''access'')
   \<and> tok_payload (create_password_reset_token cfg now email) ''sub'' = Some (Str email)
   \<and> decode_token cfg now (create_email_verification_token cfg now email)
       = Inr (tok_payload (create_email_verification_token cfg now email))
   \<and> decode_token cfg now (create_password_reset_token cfg now email)
       = Inr (tok_payload (create_password_reset_token cfg now email))"
  by (simp add: create_email_verification_token_def create_password_reset_token_def
      create_access_token_def jwt_encode_def decode_token_def)

subsection \<open>The embedding text of a chunk\<close>

text \<open>
  Claim C7. The claim asks for a string. \<open>to_embedding\<close> reads \<open>self.file_path\<close>,
  and the dataclass declares the field \<open>path\<close> and no \<open>file_path\<close>: for every
  chunk the call raises \<open>AttributeError\<close> while it builds the fourth line.
\<close>

theorem to_embedding_raises:
  "to_embedding self = Inl (AttributeError ''file_path'')"
  by (simp add: to_embedding_def getattr_def and_then_def)

subsection \<open>File discovery\<close>

lemma endswith_suffix: "endswith s ext = suffix ext s"
proof
  assume "endswith s ext"
  then have "s = take (length s - length ext) s @ ext"
    unfolding endswith_def by (metis append_take_drop_id)
  then show "suffix ext s" by (rule suffixI)
next
  assume "suffix ext s"
  then obtain p where "s = p @ ext" by (auto simp: suffix_def)
  then show "endswith s ext" by (simp add: endswith_def)
qed

lemma supported_iff:
  "list_ex (\<lambda>ext. endswith file ext) SUPORTED_EXT
   = (suffix ''.js'' file \<or> suffix ''.md'' file \<or> suffix ''.yml'' file \<or> suffix ''yaml'' file)"
  by (simp add: SUPORTED_EXT_def endswith_suffix)

text \<open>
  Claim C8, as stated, fails: the fourth entry \<open>yaml\<close> is tested with \<open>endswith\<close>
  like the other three. The file \<open>yaml.txt\<close> contains \<open>yaml\<close> and is not kept.
\<close>

theorem get_file_yaml_substring_counterexample:
  "sublist ''yaml'' ''yaml.txt'' \<and> get_file ''repo'' (Dir [] [''yaml.txt'']) = []"
proof
  have "prefix ''yaml'' ''yaml.txt''" by simp
  then show "sublist ''yaml'' ''yaml.txt''" by (rule prefix_imp_sublist)
  show "get_file ''repo'' (Dir [] [''yaml.txt'']) = []"
    by (simp add: get_file_def SUPORTED_EXT_def endswith_def)
qed

text \<open>
  Claim C8, amended. \<open>get_file\<close> returns, in the order of the walk, the joined paths
  of exactly the files whose name ends with \<open>.js\<close>, \<open>.md\<close>, \<open>.yml\<close> or \<open>yaml\<close>
  (the last one without a dot, so \<open>fooyaml\<close> is kept as well as \<open>b.yaml\<close>).
\<close>

theorem get_file_keeps_suffixes:
  "get_file path tree =
     concat (map (\<lambda>(root', dirs, filenames).
                    map (path_join root')
                        (filter (\<lambda>file. suffix ''.js'' file \<or> suffix ''.md'' file
                                        \<or> suffix ''.yml'' file \<or> suffix ''yaml'' file) filenames))
                 (os_walk path tree))"
  by (simp add: get_file_def supported_iff)

subsection \<open>Coupon discounts\<close>

lemma calculate_discount_le:
  "0 \<le> amount \<Longrightarrow> calculate_discount now c amount \<le> amount"
  by (simp add: calculate_discount_def)



text \<open>
  The final amount that \<open>validate_coupon\<close> reports is the order amount less that
  discount, so it is not negative either.
\<close>

lemma validate_coupon_final_amount:
  assumes "0 \<le> order_amount"
    and "validate_coupon validate_code now s code order_amount = Inr (ok, cp, msg, discount, final)"
  shows "discount \<le> order_amount \<and> final = order_amount - discount \<and> 0 \<le> final"
proof -
  obtain valid coupon err where vc: "validate_code s code = (valid, coupon, err)"
    by (cases "validate_code s code") auto
  show ?thesis
  proof (cases "valid \<and> coupon \<noteq> None")
    case False
    with assms vc show ?thesis
      by (auto simp: validate_coupon_def split: if_splits option.splits)
  next
    case True
    then obtain c where c: "coupon = Some c" by auto
    from assms(1) have "calculate_discount now c order_amount \<le> order_amount"
      by (rule calculate_discount_le)
    with assms vc True c show ?thesis
      by (auto simp: validate_coupon_def Let_def split: if_splits option.splits)
  qed
qed

subsection \<open>Orders from carts\<close>

lemma check_lines_BadRequest:
  "check_lines s items = Some e \<Longrightarrow> \<exists>d. e = BadRequest d"
  by (induction items) (auto split: option.splits if_splits)

lemma check_lines_unavailable:
  assumes "line \<in> set items"
    and "products s (ci_product_id line) = None
         \<or> (\<exists>p. products s (ci_product_id line) = Some p
                 \<and> (\<not> p_is_active p \<or> p_stock p < ci_quantity line))"
  shows "\<exists>e. check_lines s items = Some e"
  using assms
proof (induction items)
  case Nil
  then show ?case by simp
next
  case (Cons i rest)
  show ?case
  proof (cases "line = i")
    case True
    with Cons.prems(2) show ?thesis by (auto split: option.splits)
  next
    case False
    with Cons.prems have "line \<in> set rest" by simp
    from Cons.IH [OF this Cons.prems(2)] show ?thesis by (auto split: option.splits)
  qed
qed

text \<open>
  Claim C2. When some line of the user's cart names a product that is missing,
  inactive or short of stock, \<open>create_order_from_cart\<close> raises a \<open>BadRequest\<close>
  and the database is the one it was called on: no order, no order line, no stock
  change, and the cart as it was.
\<close>

theorem create_order_from_cart_atomic:
  assumes "carts s user_id = Some cart_id"
    and "line \<in> set (cart_lines s cart_id)"
    and "products s (ci_product_id line) = None
         \<or> (\<exists>p. products s (ci_product_id line) = Some p
                 \<and> (\<not> p_is_active p \<or> p_stock p < ci_quantity line))"
  shows "\<exists>d. create_order_from_cart validate_code now s user_id order_data
              = (Inl (BadRequest d), s)"
proof -
  from assms(2) have ne: "cart_lines s cart_id \<noteq> []" by auto
  from check_lines_unavailable [OF assms(2,3)]
  obtain e where e: "check_lines s (cart_lines s cart_id) = Some e" by blast
  with check_lines_BadRequest obtain d where "e = BadRequest d" by blast
  with e ne assms(1) show ?thesis
    by (simp add: create_order_from_cart_def is_empty_def)
qed

theorem create_order_from_cart_atomic_witness:
  "carts db_short_stock 1 = Some 5
   \<and> (\<exists>d. create_order_from_cart (\<lambda>s code. (False, None, None)) 0 db_short_stock 1
              \<lparr>coupon_code = None, billing_address_id = None, shipping_address_id = None\<rparr>
            = (Inl (BadRequest d), db_short_stock))"
  using create_order_from_cart_atomic
    [of db_short_stock 1 5
        "\<lparr>ci_id = 1, ci_cart_id = 5, ci_product_id = 10, ci_quantity = 2, ci_price = 30\<rparr>"
        "\<lambda>s code. (False, None, None)" 0
        "\<lparr>coupon_code = None, billing_address_id = None, shipping_address_id = None\<rparr>"]
  by (simp add: db_short_stock_def cart_lines_def)

text \<open>
  For comparison, the path without a failure: with nine lamps in stock instead of
  one, the call creates order 1 over 60 with one order line, takes two lamps from the
  stock and empties the cart.
\<close>

lemma create_order_from_cart_example:
  "fst (create_order_from_cart (\<lambda>s code. (False, None, None)) 0
          (db_short_stock\<lparr>products := [10 \<mapsto> \<lparr>p_name = ''lamp'', p_stock = 9, p_is_active = True\<rparr>]\<rparr>) 1
          \<lparr>coupon_code = None, billing_address_id = None, shipping_address_id = None\<rparr>)
     = Inr (Some (1, \<lparr>o_user_id = 1, o_status = PENDING, o_total_amount = 60,
                      o_billing_address_id = None, o_shipping_address_id = None\<rparr>))
   \<and> map_option p_stock (products (snd (create_order_from_cart (\<lambda>s code. (False, None, None)) 0
          (db_short_stock\<lparr>products := [10 \<mapsto> \<lparr>p_name = ''lamp'', p_stock = 9, p_is_active = True\<rparr>]\<rparr>) 1
          \<lparr>coupon_code = None, billing_address_id = None, shipping_address_id = None\<rparr>)) 10) = Some 7
   \<and> cart_items (snd (create_order_from_cart (\<lambda>s code. (False, None, None)) 0
          (db_short_stock\<lparr>products := [10 \<mapsto> \<lparr>p_name = ''lamp'', p_stock = 9, p_is_active = True\<rparr>]\<rparr>) 1
          \<lparr>coupon_code = None, billing_address_id = None, shipping_address_id = None\<rparr>)) = []
   \<and> order_items (snd (create_order_from_cart (\<lambda>s code. (False, None, None)) 0
          (db_short_stock\<lparr>products := [10 \<mapsto> \<lparr>p_name = ''lamp'', p_stock = 9, p_is_active = True\<rparr>]\<rparr>) 1
          \<lparr>coupon_code = None, billing_address_id = None, shipping_address_id = None\<rparr>))
       = [\<lparr>oi_id = 1, oi_order_id = 1, oi_product_id = 10, oi_quantity = 2, oi_unit_price = 30\<rparr>]"
  by (simp add: create_order_from_cart_def db_short_stock_def cart_lines_def is_empty_def
      subtotal_def item_subtotal_def create_order_def decrease_stock_def update_stock_def
      clear_def get_by_id_with_details_def Let_def)

subsection \<open>Cancelling orders\<close>









subsection \<open>Category depth and path\<close>

lemma level_loop_returns:
  assumes closed: "\<forall>c\<in>ran tbl. \<forall>pid. cat_parent_id c = Some pid \<longrightarrow> pid \<in> dom tbl"
    and "c \<in> ran tbl" and "lv \<le> 10"
  shows "\<exists>n. level_loop tbl (Some c) lv = Inr n \<and> lv \<le> n \<and> n \<le> 11"
  using assms(2,3)
proof (induction "nat (10 - lv)" arbitrary: c lv)
  case 0
  then have "lv = 10" by simp
  then show ?case
    by (cases "cat_parent_id c") (simp_all add: level_loop.simps [of tbl "Some c" 10])
next
  case (Suc k)
  then have lt: "lv < 10" by simp
  show ?case
  proof (cases "cat_parent_id c")
    case None
    with lt show ?thesis by (simp add: level_loop.simps [of tbl "Some c" lv])
  next
    case (Some pid)
    with closed Suc.prems(1) obtain c' where c': "tbl pid = Some c'" by blast
    then have "c' \<in> ran tbl" by (rule ranI)
    moreover have "k = nat (10 - (lv + 1))" using Suc.hyps(2) by simp
    moreover have "lv + 1 \<le> 10" using lt by simp
    ultimately obtain n where "level_loop tbl (Some c') (lv + 1) = Inr n" "lv + 1 \<le> n" "n \<le> 11"
      using Suc.hyps(1) by blast
    with Some c' lt show ?thesis
      by (simp add: level_loop.simps [of tbl "Some c" lv])
  qed
qed

lemma full_path_loop_returns:
  assumes closed: "\<forall>c\<in>ran tbl. \<forall>pid. cat_parent_id c = Some pid \<longrightarrow> pid \<in> dom tbl"
    and "c \<in> ran tbl" and "length path \<le> 10"
  shows "\<exists>names. full_path_loop tbl (Some c) path = Inr names
           \<and> length path \<le> length names \<and> length names \<le> 11"
  using assms(2,3)
proof (induction "10 - length path" arbitrary: c path)
  case 0
  then have len: "length path = 10" by simp
  show ?case
  proof (cases "cat_parent_id c")
    case None
    with len show ?thesis by (simp add: full_path_loop.simps [of tbl "Some c" path])
  next
    case (Some pid)
    with closed "0.prems"(1) obtain c' where c': "tbl pid = Some c'" by blast
    with Some len show ?thesis by (simp add: full_path_loop.simps [of tbl "Some c" path])
  qed
next
  case (Suc k)
  then have lt: "length path < 10" by simp
  show ?case
  proof (cases "cat_parent_id c")
    case None
    with lt show ?thesis by (simp add: full_path_loop.simps [of tbl "Some c" path])
  next
    case (Some pid)
    with closed Suc.prems(1) obtain c' where c': "tbl pid = Some c'" by blast
    then have "c' \<in> ran tbl" by (rule ranI)
    moreover have "k = 10 - length (cat_name c' # path)" using Suc.hyps(2) by simp
    moreover have "length (cat_name c' # path) \<le> 10" using lt by simp
    ultimately obtain names where
      "full_path_loop tbl (Some c') (cat_name c' # path) = Inr names"
      "length (cat_name c' # path) \<le> length names" "length names \<le> 11"
      using Suc.hyps(1) by blast
    with Some c' lt show ?thesis
      by (simp add: full_path_loop.simps [of tbl "Some c" path])
  qed
qed

text \<open>
  Claim C9, as stated, fails in its bound for \<open>level\<close>: the loop adds one to
  \<open>level\<close> at each hop and leaves only when \<open>level > 10\<close>, that is after the
  eleventh hop. For a category that is its own parent it returns 11.
\<close>

theorem level_self_parent_counterexample:
  "level tbl_cycle cat_cycle = Inr 11"
  by code_simp

text \<open>
  Claim C9, amended. Both functions are total (their loops are defined with a
  termination proof). In a table where every parent reference resolves, as the foreign
  key guarantees, and for every category of it, cyclic chains included, \<open>level\<close>
  returns a number between 0 and 11 (one per hop: at most eleven hops) and
  \<open>full_path\<close> returns the breadcrumb of at most eleven names (the category's own
  and one per hop: at most ten hops).
\<close>

theorem category_walks_return:
  assumes "\<forall>c\<in>ran tbl. \<forall>pid. cat_parent_id c = Some pid \<longrightarrow> pid \<in> dom tbl"
    and "self \<in> ran tbl"
  shows "(\<exists>n. level tbl self = Inr n \<and> 0 \<le> n \<and> n \<le> 11)
       \<and> (if is_root self then full_path tbl self = Inr (cat_name self)
          else \<exists>names. full_path_loop tbl (Some self) [cat_name self] = Inr names
                 \<and> length names \<le> 11
                 \<and> full_path tbl self = Inr (join '' > '' names))"
proof
  from level_loop_returns [OF assms, of 0]
  show "\<exists>n. level tbl self = Inr n \<and> 0 \<le> n \<and> n \<le> 11"
    by (auto simp: level_def)
next
  from full_path_loop_returns [OF assms, of "[cat_name self]"]
  show "if is_root self then full_path tbl self = Inr (cat_name self)
        else \<exists>names. full_path_loop tbl (Some self) [cat_name self] = Inr names
               \<and> length names \<le> 11
               \<and> full_path tbl self = Inr (join '' > '' names)"
    by (auto simp: full_path_def)
qed

theorem category_walks_return_witness:
  "cat_cycle \<in> ran tbl_cycle
   \<and> (\<exists>n. level tbl_cycle cat_cycle = Inr n \<and> n \<le> 11)
   \<and> (\<exists>names. full_path_loop tbl_cycle (Some cat_cycle) [cat_name cat_cycle] = Inr names
          \<and> length names \<le> 11
          \<and> full_path tbl_cycle cat_cycle = Inr (join '' > '' names))"
proof -
  have cl: "\<forall>c\<in>ran tbl_cycle. \<forall>pid. cat_parent_id c = Some pid \<longrightarrow> pid \<in> dom tbl_cycle"
    by (simp add: tbl_cycle_def cat_cycle_def)
  have mem: "cat_cycle \<in> ran tbl_cycle" by (simp add: tbl_cycle_def)
  have nr: "\<not> is_root cat_cycle" by (simp add: is_root_def cat_cycle_def)
  from category_walks_return [OF cl mem] nr mem show ?thesis by auto
qed

subsection \<open>Processing payments\<close>

lemma filter_map_id_preserved:
  assumes "\<And>x. k (f x) = k x"
  shows "filter (\<lambda>x. k x = v) (map f xs) = map f (filter (\<lambda>x. k x = v) xs)"
  using assms by (induction xs) auto

lemma get_payment_after_update:
  assumes "get_payment_by_id s pid = Inr (Some p)"
    and "\<And>x. pay_id (f x) = pay_id x"
  shows "get_payment_by_id (s\<lparr>payments := map (\<lambda>x. if pay_id x = pid then f x else x) (payments s)\<rparr>) pid
         = Inr (Some (f p))"
proof -
  let ?g = "\<lambda>x. if pay_id x = pid then f x else x"
  from assms(1) have one: "filter (\<lambda>x. pay_id x = pid) (payments s) = [p]"
    by (auto simp: get_payment_by_id_def scalar_one_or_none_def split: list.splits)
  then have "p \<in> set (filter (\<lambda>x. pay_id x = pid) (payments s))" by simp
  then have pid: "pay_id p = pid" by simp
  have "\<And>x. pay_id (?g x) = pay_id x" using assms(2) by simp
  then have "filter (\<lambda>x. pay_id x = pid) (map ?g (payments s))
        = map ?g (filter (\<lambda>x. pay_id x = pid) (payments s))"
    by (rule filter_map_id_preserved)
  with one pid show ?thesis
    by (simp add: get_payment_by_id_def scalar_one_or_none_def)
qed

text \<open>
  Claim C10. For a payment that exists, whatever its status and whatever the status
  of its order, \<open>process_payment\<close> returns and stores the payment with status
  success, the given transaction reference and the paid-at time, and stores status
  paid on the owning order. A \<open>payment_intent.succeeded\<close> event whose id is the
  stored reference of the payment runs exactly this call, so replaying it marks a
  failed or refunded payment successful again.
\<close>

theorem process_payment_unconditional:
  assumes "get_payment_by_id s payment_id = Inr (Some p)"
  shows "\<exists>s'. process_payment now s payment_id reference
               = (Inr (Some (p\<lparr>pay_status := PAY_SUCCESS,
                               pay_transaction_reference := Some reference,
                               pay_paid_at := Some now\<rparr>)), s')
          \<and> get_payment_by_id s' payment_id
               = Inr (Some (p\<lparr>pay_status := PAY_SUCCESS,
                               pay_transaction_reference := Some reference,
                               pay_paid_at := Some now\<rparr>))
          \<and> orders s' (pay_order_id p)
               = map_option (\<lambda>ord. ord\<lparr>o_status := PAID\<rparr>) (orders s (pay_order_id p))
          \<and> (if get_by_transaction_reference s reference = Some p
              then process_stripe_webhook now s
                     \<lparr>ev_type = Some ''payment_intent.succeeded'', ev_object_id = reference\<rparr>
                   = process_payment now s payment_id reference
              else True)"
proof -
  let ?f = "\<lambda>x. x\<lparr>pay_status := PAY_SUCCESS, pay_transaction_reference := Some reference,
                    pay_paid_at := Some now\<rparr>"
  let ?s1 = "s\<lparr>payments := map (\<lambda>x. if pay_id x = payment_id then ?f x else x) (payments s)\<rparr>"
  have g: "get_payment_by_id ?s1 payment_id = Inr (Some (?f p))"
    using assms by (rule get_payment_after_update) simp
  have m: "mark_as_success now s payment_id reference = (Inr (Some (?f p)), ?s1)"
    using g by (simp add: mark_as_success_def)
  from assms have "filter (\<lambda>x. pay_id x = payment_id) (payments s) = [p]"
    by (auto simp: get_payment_by_id_def scalar_one_or_none_def split: list.splits)
  then have "p \<in> set (filter (\<lambda>x. pay_id x = payment_id) (payments s))" by simp
  then have pid: "pay_id p = payment_id" by simp
  have w: "get_by_transaction_reference s reference = Some p \<Longrightarrow>
           process_stripe_webhook now s
             \<lparr>ev_type = Some ''payment_intent.succeeded'', ev_object_id = reference\<rparr>
           = process_payment now s payment_id reference"
    using pid by (simp add: process_stripe_webhook_def)
  show ?thesis
    using assms m g w
    by (cases "orders s (pay_order_id p)")
       (simp_all add: process_payment_def update_status_def get_payment_by_id_def)
qed

theorem process_payment_unconditional_witness:
  "get_payment_by_id db_refunded 3 = Inr (Some pay_refunded)
   \<and> pay_status pay_refunded = PAY_REFUNDED
   \<and> (\<exists>s'. process_stripe_webhook 200 db_refunded
               \<lparr>ev_type = Some ''payment_intent.succeeded'', ev_object_id = ''pi_1''\<rparr>
             = (Inr (Some (pay_refunded\<lparr>pay_status := PAY_SUCCESS,
                                       pay_transaction_reference := Some ''pi_1'',
                                       pay_paid_at := Some 200\<rparr>)), s')
          \<and> map_option o_status (orders s' 1) = Some PAID)"
proof -
  have g: "get_payment_by_id db_refunded 3 = Inr (Some pay_refunded)"
    by (simp add: get_payment_by_id_def scalar_one_or_none_def db_refunded_def pay_refunded_def)
  have r: "get_by_transaction_reference db_refunded ''pi_1'' = Some pay_refunded"
    by (simp add: get_by_transaction_reference_def db_refunded_def pay_refunded_def)
  have o: "pay_order_id pay_refunded = 1" "pay_status pay_refunded = PAY_REFUNDED"
    by (simp_all add: pay_refunded_def)
  have "map_option o_status (orders db_refunded 1) = Some REFUNDED"
    by (simp add: db_refunded_def)
  with process_payment_unconditional [OF g, of 200 "''pi_1''"] g r o show ?thesis
    by (auto simp: db_refunded_def)
qed

subsection \<open>Cart lines\<close>












end
